theory Spec2Isabelle
  imports Complex_Main "HOL-Library.Word"
begin

section \<open>Common types\<close>

text \<open>
  Pointers are addresses, with \<open>NULL\<close> the address 0. \<open>ParameterValue\<close> is the
  numeric value type of the library; the code modelled here only stores and copies such
  values and returns the constant 0.0, it performs no arithmetic on them.
\<close>

type_synonym addr = nat
type_synonym byte = "8 word"
type_synonym ParameterString = string
type_synonym ParameterValue = real

definition NULL :: addr where
  "NULL = 0"

text \<open>
  \<open>UndefinedBehaviour\<close>: the C++ would access memory it may not access (a dangling or
  null pointer, a buffer too short). \<open>OutOfRange\<close>: \<open>std::vector::at\<close> throws
  \<open>std::out_of_range\<close>.
\<close>

datatype error = UndefinedBehaviour | OutOfRange

section \<open>BlobParameter.h\<close>

text \<open>
  The C heap as a map from the addresses of live blocks to their bytes. \<open>free\<close> of an
  address that is not a live block and \<open>memcpy\<close> outside of live blocks, on overlapping
  blocks or through \<open>NULL\<close> are undefined behaviour. The allocator is the C library's:
  it is a parameter \<open>malloc\<close> that picks the address of the new block (or \<open>NULL\<close>)
  from the heap and the size asked for. The bytes of a new block are unspecified in C; they
  are written as zeros here and \<open>setValue\<close> overwrites all of them.
\<close>

type_synonym heap = "addr \<rightharpoonup> byte list"

definition free_block :: "addr \<Rightarrow> heap \<Rightarrow> error + heap" where
  "free_block p h =
     (if p = NULL then Inr h
      else (case h p of
              None \<Rightarrow> Inl UndefinedBehaviour
            | Some bs \<Rightarrow> Inr (h(p := None))))"

definition malloc_block :: "(heap \<Rightarrow> nat \<Rightarrow> addr) \<Rightarrow> nat \<Rightarrow> heap \<Rightarrow> addr \<times> heap" where
  "malloc_block malloc n h =
     (let p = malloc h n
      in if p = NULL then (NULL, h) else (p, h(p \<mapsto> replicate n 0)))"

definition memcpy :: "addr \<Rightarrow> addr \<Rightarrow> nat \<Rightarrow> heap \<Rightarrow> error + heap" where
  "memcpy dst src n h =
     (if dst = NULL \<or> src = NULL \<or> dst = src then Inl UndefinedBehaviour
      else (case h dst of
              None \<Rightarrow> Inl UndefinedBehaviour
            | Some d \<Rightarrow>
                (case h src of
                   None \<Rightarrow> Inl UndefinedBehaviour
                 | Some s \<Rightarrow>
                     if length d < n \<or> length s < n then Inl UndefinedBehaviour
                     else Inr (h(dst \<mapsto> take n s @ drop n d)))))"

text \<open>The fields of \<open>BlobParameter\<close>; \<open>blobName\<close> is the name given to the base class.\<close>

record BlobParameter =
  blobName :: ParameterString
  data :: addr
  dataSize :: nat

text \<open>The constructor \<open>BlobParameter(inName, inData = NULL, inDataSize = 0)\<close>.\<close>

definition newBlobParameter :: "ParameterString \<Rightarrow> addr \<Rightarrow> nat \<Rightarrow> BlobParameter" where
  "newBlobParameter inName inData inDataSize =
     \<lparr>blobName = inName, data = inData, dataSize = inDataSize\<rparr>"





definition setScaledValue :: "ParameterValue \<Rightarrow> BlobParameter \<Rightarrow> BlobParameter" where
  "setScaledValue v b = b"

text \<open>
  \<open>BlobParameter::setValue(inData, inDataSize)\<close>, on the parameter and the heap: the
  early return, \<open>free\<close> of the old block when there is one, \<open>malloc\<close>, the two
  assignments and \<open>memcpy\<close>. The source does not test what \<open>malloc\<close> returns, so a
  failed allocation ends in \<open>memcpy\<close> through \<open>NULL\<close>.
\<close>

definition setValue ::
  "(heap \<Rightarrow> nat \<Rightarrow> addr) \<Rightarrow> addr \<Rightarrow> nat \<Rightarrow> BlobParameter \<times> heap
     \<Rightarrow> error + BlobParameter \<times> heap" where
  "setValue malloc inData inDataSize bh =
     (case bh of (b, h) \<Rightarrow>
        if inData = NULL \<or> inDataSize = 0 then Inr (b, h)
        else (case (if data b \<noteq> NULL then free_block (data b) h else Inr h) of
                Inl e \<Rightarrow> Inl e
              | Inr h1 \<Rightarrow>
                  (case malloc_block malloc inDataSize h1 of (p, h2) \<Rightarrow>
                     (let b' = b\<lparr>data := p, dataSize := inDataSize\<rparr>
                      in (case memcpy (data b') inData inDataSize h2 of
                            Inl e \<Rightarrow> Inl e
                          | Inr h3 \<Rightarrow> Inr (b', h3))))))"

text \<open>
  An allocator to run the model with: the first of the addresses 1 and 2 that is not a
  live block, \<open>NULL\<close> when both are.
\<close>

definition first_fit :: "heap \<Rightarrow> nat \<Rightarrow> addr" where
  "first_fit h n = (if h 1 = None then 1 else if h 2 = None then 2 else NULL)"

section \<open>Parameters, events and dispatchers\<close>

text \<open>
  The headers Parameter.h (PluginParameter.h for the older class), Event.h and
  EventDispatcher.h are not among the source files. What the set classes use of them is
  modelled below, from the calls the set classes make and from the spec.
\<close>

text \<open>
  Modelled from the spec: the value a record carries (Event.h is missing), a tagged union.
  The three constructors are the payloads of \<open>Event\<close>, \<open>ScaledEvent\<close> and
  \<open>DataEvent\<close>, the last a buffer pointer with its length.
\<close>

datatype payload =
    Value ParameterValue
  | ScaledValue ParameterValue
  | DataValue addr nat

text \<open>
  Modelled from the spec: the parameter object (Parameter.h and PluginParameter.h are
  missing). It has a name and a safe name (\<open>getName\<close>, \<open>getSafeName\<close>), a
  dynamic type that is or is not a \<open>DataParameter\<close>, the value last applied to it
  and the observers registered on it.
\<close>

record Parameter =
  name :: ParameterString
  safeName :: ParameterString
  isDataParameter :: bool
  current :: payload
  observers :: "addr list"

text \<open>
  Modelled from the spec: the change record (Event.h is missing), with the fields the set
  classes pass to the constructors of \<open>Event\<close>, \<open>ScaledEvent\<close> and
  \<open>DataEvent\<close>, in that order: the target, the new value, the real-time flag and the
  sender.
\<close>

record Event =
  target :: addr
  payload :: payload
  isRealtime :: bool
  sender :: addr

text \<open>Modelled from the spec: the constructors of the three record classes.\<close>

definition newEvent :: "addr \<Rightarrow> ParameterValue \<Rightarrow> bool \<Rightarrow> addr \<Rightarrow> Event" where
  "newEvent p v realtime s = \<lparr>target = p, payload = Value v, isRealtime = realtime, sender = s\<rparr>"

definition newScaledEvent :: "addr \<Rightarrow> ParameterValue \<Rightarrow> bool \<Rightarrow> addr \<Rightarrow> Event" where
  "newScaledEvent p v realtime s =
     \<lparr>target = p, payload = ScaledValue v, isRealtime = realtime, sender = s\<rparr>"

definition newDataEvent :: "addr \<Rightarrow> addr \<Rightarrow> nat \<Rightarrow> bool \<Rightarrow> addr \<Rightarrow> Event" where
  "newDataEvent p d n realtime s =
     \<lparr>target = p, payload = DataValue d n, isRealtime = realtime, sender = s\<rparr>"

text \<open>
  Modelled from the spec: \<open>EventDispatcher\<close> (EventDispatcher.h is missing). A
  Dispatcher owns an ordered queue of pending records and a kill flag that is set once and
  never cleared; \<open>notifyCount\<close> counts the wake signals sent to its waiter.

  A Dispatcher is constructed with a real-time flag that never changes. The sets
  construct their two members as \<open>asyncDispatcher(this, false)\<close> and
  \<open>realtimeDispatcher(this, true)\<close>, so the flag of a Dispatcher is known from the
  member it is: it is the first argument of the operation that reads it, given at each
  call on a member, and not a field of the state.
\<close>

record EventDispatcher =
  queue :: "Event list"
  killed :: bool
  notifyCount :: nat

text \<open>Modelled from the spec: a new Dispatcher, with an empty queue and not killed.\<close>

definition newEventDispatcher :: EventDispatcher where
  "newEventDispatcher = \<lparr>queue = [], killed = False, notifyCount = 0\<rparr>"

text \<open>Modelled from the spec: \<open>EventDispatcher::notify\<close>, the wake signal to the
  waiter.\<close>

definition EventDispatcher_notify :: "EventDispatcher \<Rightarrow> EventDispatcher" where
  "EventDispatcher_notify d = d\<lparr>notifyCount := Suc (notifyCount d)\<rparr>"

text \<open>Modelled from the spec: the queue's \<open>push\<close>, which appends the record to the
  tail.\<close>

definition push :: "Event \<Rightarrow> EventDispatcher \<Rightarrow> EventDispatcher" where
  "push e d = d\<lparr>queue := queue d @ [e]\<rparr>"

text \<open>
  Modelled from the spec: \<open>EventDispatcher::add\<close>, the Dispatcher's enqueue. It
  pushes the record to its queue; the async Dispatcher (real-time flag false) also signals
  its waiter after pushing.
\<close>

definition EventDispatcher_add :: "bool \<Rightarrow> Event \<Rightarrow> EventDispatcher \<Rightarrow> EventDispatcher" where
  "EventDispatcher_add realtime e d =
     (if realtime then push e d else EventDispatcher_notify (push e d))"

text \<open>Modelled from the spec: \<open>EventDispatcher::isKilled\<close>, a read of the kill
  flag.\<close>

definition EventDispatcher_isKilled :: "EventDispatcher \<Rightarrow> bool" where
  "EventDispatcher_isKilled d = killed d"

text \<open>Modelled from the spec: \<open>EventDispatcher::kill\<close>, which sets the stop flag
  and wakes the waiter once, and is idempotent.\<close>

definition EventDispatcher_kill :: "EventDispatcher \<Rightarrow> EventDispatcher" where
  "EventDispatcher_kill d =
     (if killed d then d else d\<lparr>killed := True, notifyCount := Suc (notifyCount d)\<rparr>)"

text \<open>Modelled from the spec: the queue's \<open>popAll\<close>, which removes and returns the
  whole contents in order and leaves the queue empty.\<close>

definition popAll :: "EventDispatcher \<Rightarrow> Event list \<times> EventDispatcher" where
  "popAll d = (queue d, d\<lparr>queue := []\<rparr>)"

section \<open>The parameter set\<close>

text \<open>
  The fields of \<open>PluginParameterSet\<close>, which \<open>ConcurrentParameterSet\<close> has too
  (the map and the list through its base class \<open>ParameterSet\<close>, whose header is
  missing): the name map, the ordered list and the two dispatchers. Two more fields hold
  what the calls act on outside of the set object: \<open>objects\<close>, the parameter objects
  the pointers point to, and \<open>notified\<close>, the observer callbacks made so far, each a
  pair of the observer and the parameter it was called for.
\<close>

record ParameterSet =
  parameterMap :: "ParameterString \<rightharpoonup> addr"
  parameterList :: "addr list"
  asyncDispatcher :: EventDispatcher
  realtimeDispatcher :: EventDispatcher
  objects :: "addr \<rightharpoonup> Parameter"
  notified :: "(addr \<times> addr) list"

definition newParameterSet :: "(addr \<rightharpoonup> Parameter) \<Rightarrow> ParameterSet" where
  "newParameterSet objs =
     \<lparr>parameterMap = Map.empty, parameterList = [],
      asyncDispatcher = newEventDispatcher, realtimeDispatcher = newEventDispatcher,
      objects = objs, notified = []\<rparr>"

text \<open>
  Modelled from the spec: the apply-and-notify step of a record. The target's value becomes
  the record's payload, then every observer registered on the target is notified, except
  the record's originator when that is not null. The spec requires the target to outlive
  the record; a record whose target is not a live parameter changes nothing here.
\<close>

definition Event_apply :: "Event \<Rightarrow> ParameterSet \<Rightarrow> ParameterSet" where
  "Event_apply e s =
     (case objects s (target e) of
        None \<Rightarrow> s
      | Some p \<Rightarrow>
          s\<lparr>objects := (objects s)(target e \<mapsto> p\<lparr>current := payload e\<rparr>),
            notified := notified s @
              map (\<lambda>ob. (ob, target e))
                (filter (\<lambda>ob. sender e = NULL \<or> ob \<noteq> sender e) (observers p))\<rparr>)"

text \<open>
  Modelled from the spec: \<open>EventDispatcher::process\<close>, the Dispatcher's drain. It pops
  all queued records and applies each in FIFO order, in a single pass.
\<close>

definition EventDispatcher_process ::
  "EventDispatcher \<Rightarrow> ParameterSet \<Rightarrow> EventDispatcher \<times> ParameterSet" where
  "EventDispatcher_process d s =
     (case popAll d of (es, d') \<Rightarrow> (d', foldl (\<lambda>s' e. Event_apply e s') s es))"

subsection \<open>PluginParameterSet.h\<close>

text \<open>
  \<open>std::vector::at\<close> with an \<open>int\<close> index: the index is converted to the unsigned
  size type, so a negative one is out of range like one past the end.
\<close>

definition vector_at :: "'a list \<Rightarrow> int \<Rightarrow> error + 'a" where
  "vector_at xs i = (if 0 \<le> i \<and> i < int (length xs) then Inr (xs ! nat i) else Inl OutOfRange)"

text \<open>\<open>std::map::insert\<close> keeps the old entry when the key is present.\<close>

definition map_insert :: "'k \<Rightarrow> 'v \<Rightarrow> ('k \<rightharpoonup> 'v) \<Rightarrow> ('k \<rightharpoonup> 'v)" where
  "map_insert k v m = (case m k of None \<Rightarrow> m(k \<mapsto> v) | Some old \<Rightarrow> m)"

text \<open>
  \<open>get(name)\<close>. \<open>PluginParameter::makeSafeName\<close> is declared in the missing header;
  it is the parameter \<open>makeSafeName\<close> of the functions that call it.
\<close>

definition PluginParameterSet_get ::
  "(ParameterString \<Rightarrow> ParameterString) \<Rightarrow> ParameterSet \<Rightarrow> ParameterString \<Rightarrow> addr" where
  "PluginParameterSet_get makeSafeName s nm =
     (case parameterMap s (makeSafeName nm) of Some p \<Rightarrow> p | None \<Rightarrow> NULL)"

text \<open>\<open>size()\<close> returns the list's size converted to \<open>int\<close>, a 32-bit signed integer.\<close>

definition PluginParameterSet_size :: "ParameterSet \<Rightarrow> int" where
  "PluginParameterSet_size s = sint (word_of_nat (length (parameterList s)) :: 32 word)"

text \<open>
  \<open>add(parameter)\<close>, returning the pointer returned and the set. Reading the name of a
  parameter through a pointer that is neither null nor the address of a parameter object is
  undefined behaviour.
\<close>

definition PluginParameterSet_add ::
  "(ParameterString \<Rightarrow> ParameterString) \<Rightarrow> addr \<Rightarrow> ParameterSet \<Rightarrow> error + addr \<times> ParameterSet" where
  "PluginParameterSet_add makeSafeName parameter s =
     (if parameter = NULL then Inr (NULL, s)
      else (case objects s parameter of
              None \<Rightarrow> Inl UndefinedBehaviour
            | Some obj \<Rightarrow>
                if PluginParameterSet_get makeSafeName s (name obj) \<noteq> NULL then Inr (NULL, s)
                else Inr (parameter,
                       s\<lparr>parameterMap := map_insert (safeName obj) parameter (parameterMap s),
                         parameterList := parameterList s @ [parameter]\<rparr>)))"

text \<open>
  \<open>PluginParameterSet::scheduleEvent\<close> and
  \<open>PluginParameterSet::set(parameter, value, realtime, sender)\<close>. The members are
  \<open>asyncDispatcher(this, false)\<close> and \<open>realtimeDispatcher(this, true)\<close>.
\<close>

definition PluginParameterSet_scheduleEvent :: "Event \<Rightarrow> ParameterSet \<Rightarrow> ParameterSet" where
  "PluginParameterSet_scheduleEvent event s =
     (if isRealtime event
      then s\<lparr>realtimeDispatcher := EventDispatcher_add True event (realtimeDispatcher s)\<rparr>
      else s\<lparr>asyncDispatcher := EventDispatcher_add False event (asyncDispatcher s)\<rparr>)"

definition PluginParameterSet_set ::
  "addr \<Rightarrow> ParameterValue \<Rightarrow> bool \<Rightarrow> addr \<Rightarrow> ParameterSet \<Rightarrow> ParameterSet" where
  "PluginParameterSet_set parameter v realtime sndr s =
     PluginParameterSet_scheduleEvent (newEvent parameter v realtime sndr) s"

subsection \<open>ConcurrentParameterSet.h\<close>

text \<open>
  \<open>ConcurrentParameterSet::scheduleEvent\<close>, with the call of \<open>notify()\<close> that
  follows \<open>add\<close> on the async dispatcher, and \<open>processRealtimeEvents\<close>. The
  members are \<open>asyncDispatcher(this, false)\<close> and \<open>realtimeDispatcher(this, true)\<close>.
\<close>

definition ConcurrentParameterSet_scheduleEvent :: "Event \<Rightarrow> ParameterSet \<Rightarrow> ParameterSet" where
  "ConcurrentParameterSet_scheduleEvent event s =
     (if isRealtime event
      then s\<lparr>realtimeDispatcher := EventDispatcher_add True event (realtimeDispatcher s)\<rparr>
      else s\<lparr>asyncDispatcher :=
               EventDispatcher_notify (EventDispatcher_add False event (asyncDispatcher s))\<rparr>)"

definition ConcurrentParameterSet_processRealtimeEvents :: "ParameterSet \<Rightarrow> ParameterSet" where
  "ConcurrentParameterSet_processRealtimeEvents s =
     (case EventDispatcher_process (realtimeDispatcher s) s of
        (d', s') \<Rightarrow> s'\<lparr>realtimeDispatcher := d'\<rparr>)"

text \<open>
  The three overloads of \<open>set\<close>: by pointer, by index and by name. The lookup by name
  is the base class's \<open>get(name)\<close>, taken to be the one of \<open>PluginParameterSet\<close>.
\<close>

definition ConcurrentParameterSet_set ::
  "addr \<Rightarrow> ParameterValue \<Rightarrow> addr \<Rightarrow> ParameterSet \<Rightarrow> ParameterSet" where
  "ConcurrentParameterSet_set parameter v sndr s =
     ConcurrentParameterSet_scheduleEvent (newEvent parameter v True sndr) s"

definition ConcurrentParameterSet_set_index ::
  "int \<Rightarrow> ParameterValue \<Rightarrow> addr \<Rightarrow> ParameterSet \<Rightarrow> error + ParameterSet" where
  "ConcurrentParameterSet_set_index i v sndr s =
     (case vector_at (parameterList s) i of
        Inl e \<Rightarrow> Inl e
      | Inr parameter \<Rightarrow> Inr (ConcurrentParameterSet_set parameter v sndr s))"

definition ConcurrentParameterSet_set_name ::
  "(ParameterString \<Rightarrow> ParameterString) \<Rightarrow> ParameterString \<Rightarrow> ParameterValue \<Rightarrow> addr
     \<Rightarrow> ParameterSet \<Rightarrow> ParameterSet" where
  "ConcurrentParameterSet_set_name makeSafeName nm v sndr s =
     (let parameter = PluginParameterSet_get makeSafeName s nm
      in if parameter \<noteq> NULL then ConcurrentParameterSet_set parameter v sndr s else s)"

definition ConcurrentParameterSet_setScaled ::
  "addr \<Rightarrow> ParameterValue \<Rightarrow> addr \<Rightarrow> ParameterSet \<Rightarrow> ParameterSet" where
  "ConcurrentParameterSet_setScaled parameter v sndr s =
     ConcurrentParameterSet_scheduleEvent (newScaledEvent parameter v True sndr) s"

definition ConcurrentParameterSet_setScaled_index ::
  "int \<Rightarrow> ParameterValue \<Rightarrow> addr \<Rightarrow> ParameterSet \<Rightarrow> error + ParameterSet" where
  "ConcurrentParameterSet_setScaled_index i v sndr s =
     (case vector_at (parameterList s) i of
        Inl e \<Rightarrow> Inl e
      | Inr parameter \<Rightarrow> Inr (ConcurrentParameterSet_setScaled parameter v sndr s))"

definition ConcurrentParameterSet_setScaled_name ::
  "(ParameterString \<Rightarrow> ParameterString) \<Rightarrow> ParameterString \<Rightarrow> ParameterValue \<Rightarrow> addr
     \<Rightarrow> ParameterSet \<Rightarrow> ParameterSet" where
  "ConcurrentParameterSet_setScaled_name makeSafeName nm v sndr s =
     (let parameter = PluginParameterSet_get makeSafeName s nm
      in if parameter \<noteq> NULL then ConcurrentParameterSet_setScaled parameter v sndr s else s)"

text \<open>
  \<open>dynamic_cast<DataParameter *>(parameter)\<close>: null for a null pointer and for an
  object that is not a \<open>DataParameter\<close>; undefined for a pointer to no object.
\<close>

definition dynamic_cast_DataParameter :: "ParameterSet \<Rightarrow> addr \<Rightarrow> error + addr" where
  "dynamic_cast_DataParameter s parameter =
     (if parameter = NULL then Inr NULL
      else (case objects s parameter of
              None \<Rightarrow> Inl UndefinedBehaviour
            | Some obj \<Rightarrow> Inr (if isDataParameter obj then parameter else NULL)))"

definition ConcurrentParameterSet_setData ::
  "addr \<Rightarrow> addr \<Rightarrow> nat \<Rightarrow> addr \<Rightarrow> ParameterSet \<Rightarrow> error + ParameterSet" where
  "ConcurrentParameterSet_setData parameter d n sndr s =
     (case dynamic_cast_DataParameter s parameter of
        Inl e \<Rightarrow> Inl e
      | Inr dataParameter \<Rightarrow>
          if dataParameter \<noteq> NULL
          then Inr (ConcurrentParameterSet_scheduleEvent (newDataEvent dataParameter d n True sndr) s)
          else Inr s)"

definition ConcurrentParameterSet_setData_index ::
  "nat \<Rightarrow> addr \<Rightarrow> nat \<Rightarrow> addr \<Rightarrow> ParameterSet \<Rightarrow> error + ParameterSet" where
  "ConcurrentParameterSet_setData_index i d n sndr s =
     (case vector_at (parameterList s) (int i) of
        Inl e \<Rightarrow> Inl e
      | Inr parameter \<Rightarrow> ConcurrentParameterSet_setData parameter d n sndr s)"

definition ConcurrentParameterSet_setData_name ::
  "(ParameterString \<Rightarrow> ParameterString) \<Rightarrow> ParameterString \<Rightarrow> addr \<Rightarrow> nat \<Rightarrow> addr
     \<Rightarrow> ParameterSet \<Rightarrow> error + ParameterSet" where
  "ConcurrentParameterSet_setData_name makeSafeName nm d n sndr s =
     (let parameter = PluginParameterSet_get makeSafeName s nm
      in if parameter \<noteq> NULL then ConcurrentParameterSet_setData parameter d n sndr s
         else Inr s)"

section \<open>The background worker and the destructors\<close>

text \<open>
  The worker thread shares the async dispatcher (real-time flag false) with the threads
  that schedule events and with the destructor. While it is blocked in \<open>wait()\<close> the
  other threads call the dispatcher: each element of the worker's environment is the list of calls made during
  one \<open>wait()\<close>, in order. When the environment is used up nobody wakes the worker
  again and \<open>wait()\<close> does not return.

  Modelled from the spec: \<open>EventDispatcher::wait\<close> (EventDispatcher.h is missing),
  which blocks the calling thread until a producer signals new work or a kill has been
  requested; it returns with the dispatcher as the other threads' calls have left it.
\<close>

datatype dispatcher_call = AddCall Event | NotifyCall | KillCall

fun perform :: "dispatcher_call \<Rightarrow> EventDispatcher \<Rightarrow> EventDispatcher" where
  "perform (AddCall e) d = EventDispatcher_add False e d"
| "perform NotifyCall d = EventDispatcher_notify d"
| "perform KillCall d = EventDispatcher_kill d"

definition EventDispatcher_wait :: "dispatcher_call list \<Rightarrow> EventDispatcher \<Rightarrow> EventDispatcher" where
  "EventDispatcher_wait calls d = foldl (\<lambda>d' c. perform c d') d calls"

definition wait_async :: "dispatcher_call list \<Rightarrow> ParameterSet \<Rightarrow> ParameterSet" where
  "wait_async calls s = s\<lparr>asyncDispatcher := EventDispatcher_wait calls (asyncDispatcher s)\<rparr>"

definition process_async :: "ParameterSet \<Rightarrow> ParameterSet" where
  "process_async s =
     (case EventDispatcher_process (asyncDispatcher s) s of
        (d', s') \<Rightarrow> s'\<lparr>asyncDispatcher := d'\<rparr>)"

text \<open>
  What the worker does, in order: a read of the kill flag with the value read, a
  \<open>wait()\<close>, a \<open>process()\<close>. \<open>Process\<close> carries the value the kill flag has
  when \<open>process()\<close> is entered, which the worker may not have read. The worker ends
  by returning from its function or blocked in a \<open>wait()\<close> forever.
\<close>

datatype worker_action = IsKilled bool | Wait | Process bool

datatype worker_end = Returned | Blocked

text \<open>\<open>asyncDispatcherCallback\<close> of ConcurrentParameterSet.h.\<close>

fun ConcurrentParameterSet_asyncDispatcherCallback ::
  "dispatcher_call list list \<Rightarrow> ParameterSet \<Rightarrow> worker_end \<times> worker_action list \<times> ParameterSet" where
  "ConcurrentParameterSet_asyncDispatcherCallback [] s =
     (if EventDispatcher_isKilled (asyncDispatcher s) then (Returned, [IsKilled True], s)
      else (Blocked, [IsKilled False, Wait], s))"
| "ConcurrentParameterSet_asyncDispatcherCallback (calls # env) s =
     (if EventDispatcher_isKilled (asyncDispatcher s) then (Returned, [IsKilled True], s)
      else (let s1 = wait_async calls s
            in if \<not> EventDispatcher_isKilled (asyncDispatcher s1)
               then (case ConcurrentParameterSet_asyncDispatcherCallback env (process_async s1) of
                       (r, tr, s2) \<Rightarrow>
                         (r, [IsKilled False, Wait, IsKilled False,
                              Process (killed (asyncDispatcher s1))] @ tr, s2))
               else (case ConcurrentParameterSet_asyncDispatcherCallback env s1 of
                       (r, tr, s2) \<Rightarrow> (r, [IsKilled False, Wait, IsKilled True] @ tr, s2))))"

text \<open>\<open>asyncDispatcherCallback\<close> of PluginParameterSet.h.\<close>

fun PluginParameterSet_asyncDispatcherCallback ::
  "dispatcher_call list list \<Rightarrow> ParameterSet \<Rightarrow> worker_end \<times> worker_action list \<times> ParameterSet" where
  "PluginParameterSet_asyncDispatcherCallback [] s =
     (if EventDispatcher_isKilled (asyncDispatcher s) then (Returned, [IsKilled True], s)
      else (Blocked, [IsKilled False, Wait], s))"
| "PluginParameterSet_asyncDispatcherCallback (calls # env) s =
     (if EventDispatcher_isKilled (asyncDispatcher s) then (Returned, [IsKilled True], s)
      else (let s1 = wait_async calls s
            in (case PluginParameterSet_asyncDispatcherCallback env (process_async s1) of
                  (r, tr, s2) \<Rightarrow>
                    (r, [IsKilled False, Wait, Process (killed (asyncDispatcher s1))] @ tr, s2))))"

text \<open>
  The kill flag is checked after every wake and before \<open>process()\<close>: in the worker's
  trace every \<open>process()\<close> comes directly after a read of the kill flag that gave
  false, itself directly after a \<open>wait()\<close>.
\<close>

fun kill_checked :: "worker_action list \<Rightarrow> bool" where
  "kill_checked [] = True"
| "kill_checked (Wait # IsKilled False # Process b # tr) = kill_checked tr"
| "kill_checked (Process b # tr) = False"
| "kill_checked (a # tr) = kill_checked tr"

text \<open>No \<open>process()\<close> after the worker has read the kill flag as true.\<close>

fun no_process_after_kill :: "worker_action list \<Rightarrow> bool" where
  "no_process_after_kill [] = True"
| "no_process_after_kill (IsKilled True # tr) = (list_all (\<lambda>a. a \<noteq> Process True \<and> a \<noteq> Process False) tr)"
| "no_process_after_kill (a # tr) = no_process_after_kill tr"

text \<open>
  The steps of a destructor in the order C++ runs them: the statements of its body, then
  the destructors of the members in the reverse order of their declaration, then those
  of the base classes.
\<close>

datatype destructor_step =
    KillAsyncDispatcher
  | JoinWorker
  | DeleteParameter addr
  | DestroyThread
  | DestroyRealtimeDispatcher
  | DestroyAsyncDispatcher
  | DestroyParameterList
  | DestroyParameterMap
  | DestroyEventScheduler
  | DestroyParameterSet

definition ConcurrentParameterSet_destructor :: "ParameterSet \<Rightarrow> destructor_step list" where
  "ConcurrentParameterSet_destructor s =
     [KillAsyncDispatcher, JoinWorker] @
     [DestroyThread, DestroyRealtimeDispatcher, DestroyAsyncDispatcher] @
     [DestroyEventScheduler, DestroyParameterSet]"

definition PluginParameterSet_destructor :: "ParameterSet \<Rightarrow> destructor_step list" where
  "PluginParameterSet_destructor s =
     [JoinWorker] @
     map DeleteParameter (take (nat (PluginParameterSet_size s)) (parameterList s)) @
     [DestroyThread, DestroyRealtimeDispatcher, DestroyAsyncDispatcher,
      DestroyParameterList, DestroyParameterMap] @
     [DestroyEventScheduler]"

definition is_teardown :: "destructor_step \<Rightarrow> bool" where
  "is_teardown st = (st \<noteq> KillAsyncDispatcher \<and> st \<noteq> JoinWorker)"

text \<open>Kill, then join, then nothing but teardown.\<close>

fun kill_join_first :: "destructor_step list \<Rightarrow> bool" where
  "kill_join_first (KillAsyncDispatcher # JoinWorker # rest) = list_all is_teardown rest"
| "kill_join_first steps = False"

text \<open>
  The state the worker is in when the destructor's \<open>join()\<close> waits for it: the
  worker has been running the loop and every call the destructor makes on the dispatcher
  before \<open>join()\<close> is the last thing the worker's environment holds.
  \<open>join()\<close> returns when the worker's function has returned.
\<close>

definition ConcurrentParameterSet_join ::
  "dispatcher_call list list \<Rightarrow> ParameterSet \<Rightarrow> worker_end \<times> worker_action list \<times> ParameterSet" where
  "ConcurrentParameterSet_join env s =
     ConcurrentParameterSet_asyncDispatcherCallback (env @ [[KillCall]]) s"

definition PluginParameterSet_join ::
  "dispatcher_call list list \<Rightarrow> ParameterSet \<Rightarrow> worker_end \<times> worker_action list \<times> ParameterSet" where
  "PluginParameterSet_join env s = PluginParameterSet_asyncDispatcherCallback env s"

text \<open>
  Runs of the facade for the refinement property: a sequence of \<open>set\<close> calls and
  \<open>processRealtimeEvents\<close> calls on the set, and the same \<open>set\<close> calls applied
  synchronously, each at the moment of the call.
\<close>

datatype facade_call = SetCall addr ParameterValue addr | ProcessCall

fun run_calls :: "facade_call list \<Rightarrow> ParameterSet \<Rightarrow> ParameterSet" where
  "run_calls [] s = s"
| "run_calls (SetCall p v sndr # cs) s = run_calls cs (ConcurrentParameterSet_set p v sndr s)"
| "run_calls (ProcessCall # cs) s = run_calls cs (ConcurrentParameterSet_processRealtimeEvents s)"

fun apply_synchronously :: "facade_call list \<Rightarrow> ParameterSet \<Rightarrow> ParameterSet" where
  "apply_synchronously [] s = s"
| "apply_synchronously (SetCall p v sndr # cs) s =
     apply_synchronously cs (Event_apply (newEvent p v True sndr) s)"
| "apply_synchronously (ProcessCall # cs) s = apply_synchronously cs s"

section \<open>Measures for the properties\<close>

text \<open>Applying a list of records in order, as a drain does.\<close>

definition drain :: "Event list \<Rightarrow> ParameterSet \<Rightarrow> ParameterSet" where
  "drain es s = foldl (\<lambda>s' e. Event_apply e s') s es"


text \<open>
  \<open>enqueued_realtime e s\<close>: the set \<open>s\<close> with the record \<open>e\<close> at the tail of
  the real-time queue and nothing else changed. \<open>enqueued_async k e s\<close>: the set
  \<open>s\<close> with the record \<open>e\<close> at the tail of the async queue, \<open>k\<close> more wake
  signals sent to the async waiter, and nothing else changed.
\<close>

definition enqueued_realtime :: "Event \<Rightarrow> ParameterSet \<Rightarrow> ParameterSet" where
  "enqueued_realtime e s =
     s\<lparr>realtimeDispatcher :=
         (realtimeDispatcher s)\<lparr>queue := queue (realtimeDispatcher s) @ [e]\<rparr>\<rparr>"

definition enqueued_async :: "nat \<Rightarrow> Event \<Rightarrow> ParameterSet \<Rightarrow> ParameterSet" where
  "enqueued_async k e s =
     s\<lparr>asyncDispatcher :=
         (asyncDispatcher s)\<lparr>queue := queue (asyncDispatcher s) @ [e],
                              notifyCount := notifyCount (asyncDispatcher s) + k\<rparr>\<rparr>"

text \<open>
  A set to run the model on: one scalar parameter at address 1 with the observers 7 and
  8, one data parameter at address 2, both added under their safe names. The safe name
  of a name is the name itself here.
\<close>

definition gain_parameter :: Parameter where
  "gain_parameter =
     \<lparr>name = ''gain'', safeName = ''gain'', isDataParameter = False,
      current = Value 0, observers = [7, 8]\<rparr>"

definition blob_parameter :: Parameter where
  "blob_parameter =
     \<lparr>name = ''blob'', safeName = ''blob'', isDataParameter = True,
      current = DataValue NULL 0, observers = []\<rparr>"

definition example_set :: ParameterSet where
  "example_set =
     \<lparr>parameterMap = [''gain'' \<mapsto> 1, ''blob'' \<mapsto> 2], parameterList = [1, 2],
      asyncDispatcher = newEventDispatcher, realtimeDispatcher = newEventDispatcher,
      objects = [1 \<mapsto> gain_parameter, 2 \<mapsto> blob_parameter], notified = []\<rparr>"

section \<open>BlobParameter: properties\<close>




text \<open>
  C8. A data mutation whose buffer pointer is null or whose length is zero is dropped:
  \<open>setValue\<close> returns at once, and the parameter (its data pointer and its
  \<open>dataSize\<close>) and the heap are what they were.
\<close>

theorem setValue_dropped:
  "inData = NULL \<or> inDataSize = 0 \<Longrightarrow>
     setValue malloc inData inDataSize (b, h) = Inr (b, h)"
  by (auto simp: setValue_def)

theorem setValue_dropped_witness:
  "setValue first_fit NULL 4 (newBlobParameter ''blob'' 5 4, [5 \<mapsto> [1, 2, 3, 4]])
     = Inr (newBlobParameter ''blob'' 5 4, [5 \<mapsto> [1, 2, 3, 4]]) \<and>
   setValue first_fit 5 0 (newBlobParameter ''blob'' 5 4, [5 \<mapsto> [1, 2, 3, 4]])
     = Inr (newBlobParameter ''blob'' 5 4, [5 \<mapsto> [1, 2, 3, 4]])"
  using setValue_dropped [of NULL 4 first_fit "newBlobParameter ''blob'' 5 4" "[5 \<mapsto> [1, 2, 3, 4]]"]
        setValue_dropped [of 5 0 first_fit "newBlobParameter ''blob'' 5 4" "[5 \<mapsto> [1, 2, 3, 4]]"]
  by simp




section \<open>The dispatch mechanism: properties\<close>

subsection \<open>Draining against applying synchronously\<close>

lemma Event_apply_realtimeDispatcher [simp]:
  "realtimeDispatcher (Event_apply e s) = realtimeDispatcher s"
  by (simp add: Event_apply_def split: option.splits)

lemma Event_apply_asyncDispatcher [simp]:
  "asyncDispatcher (Event_apply e s) = asyncDispatcher s"
  by (simp add: Event_apply_def split: option.splits)

lemma Event_apply_update_realtime:
  "Event_apply e (s\<lparr>realtimeDispatcher := d\<rparr>) = (Event_apply e s)\<lparr>realtimeDispatcher := d\<rparr>"
  by (simp add: Event_apply_def split: option.splits)

lemma drain_update_realtime:
  "drain es (s\<lparr>realtimeDispatcher := d\<rparr>) = (drain es s)\<lparr>realtimeDispatcher := d\<rparr>"
  unfolding drain_def
  by (induction es arbitrary: s) (simp_all add: Event_apply_update_realtime)

lemma drain_realtimeDispatcher [simp]:
  "realtimeDispatcher (drain es s) = realtimeDispatcher s"
  unfolding drain_def by (induction es arbitrary: s) simp_all

lemma drain_snoc: "drain (es @ [e]) s = Event_apply e (drain es s)"
  by (simp add: drain_def)

lemma drain_Nil [simp]: "drain [] s = s"
  by (simp add: drain_def)

lemma apply_synchronously_update_realtime:
  "apply_synchronously cs (s\<lparr>realtimeDispatcher := d\<rparr>)
     = (apply_synchronously cs s)\<lparr>realtimeDispatcher := d\<rparr>"
proof (induction cs arbitrary: s)
  case Nil
  show ?case by simp
next
  case (Cons c cs)
  show ?case
    by (cases c) (simp_all add: Cons.IH Event_apply_update_realtime)
qed

lemma processRealtimeEvents_drain:
  "ConcurrentParameterSet_processRealtimeEvents s
     = (drain (queue (realtimeDispatcher s)) s)
         \<lparr>realtimeDispatcher := (realtimeDispatcher s)\<lparr>queue := []\<rparr>\<rparr>"
  by (simp add: ConcurrentParameterSet_processRealtimeEvents_def EventDispatcher_process_def
      popAll_def drain_def)

lemma set_enqueues:
  "ConcurrentParameterSet_set p v sndr s
     = s\<lparr>realtimeDispatcher :=
           (realtimeDispatcher s)\<lparr>queue := queue (realtimeDispatcher s) @ [newEvent p v True sndr]\<rparr>\<rparr>"
  by (simp add: ConcurrentParameterSet_set_def ConcurrentParameterSet_scheduleEvent_def
      EventDispatcher_add_def push_def newEvent_def)

lemma run_calls_then_drain:
  "ConcurrentParameterSet_processRealtimeEvents (run_calls cs s)
     = (apply_synchronously cs (drain (queue (realtimeDispatcher s)) s))
         \<lparr>realtimeDispatcher := (realtimeDispatcher s)\<lparr>queue := []\<rparr>\<rparr>"
proof (induction cs arbitrary: s)
  case Nil
  show ?case by (simp add: processRealtimeEvents_drain)
next
  case (Cons c cs)
  show ?case
  proof (cases c)
    case (SetCall p v sndr)
    then show ?thesis
      by (simp add: Cons.IH set_enqueues drain_snoc drain_update_realtime
          Event_apply_update_realtime apply_synchronously_update_realtime)
  next
    case ProcessCall
    let ?s1 = "ConcurrentParameterSet_processRealtimeEvents s"
    have s1: "?s1 = (drain (queue (realtimeDispatcher s)) s)
                      \<lparr>realtimeDispatcher := (realtimeDispatcher s)\<lparr>queue := []\<rparr>\<rparr>"
      by (rule processRealtimeEvents_drain)
    have "ConcurrentParameterSet_processRealtimeEvents (run_calls (c # cs) s)
            = ConcurrentParameterSet_processRealtimeEvents (run_calls cs ?s1)"
      using ProcessCall by simp
    also have "\<dots> = (apply_synchronously cs (drain (queue (realtimeDispatcher ?s1)) ?s1))
                       \<lparr>realtimeDispatcher := (realtimeDispatcher ?s1)\<lparr>queue := []\<rparr>\<rparr>"
      by (rule Cons.IH)
    also have "\<dots> = (apply_synchronously cs (drain (queue (realtimeDispatcher s)) s))
                       \<lparr>realtimeDispatcher := (realtimeDispatcher s)\<lparr>queue := []\<rparr>\<rparr>"
      unfolding s1 by (simp add: apply_synchronously_update_realtime)
    finally show ?thesis
      using ProcessCall by simp
  qed
qed

lemma apply_synchronously_realtimeDispatcher:
  "realtimeDispatcher (apply_synchronously cs s) = realtimeDispatcher s"
proof (induction cs arbitrary: s)
  case Nil
  show ?case by simp
next
  case (Cons c cs)
  show ?case by (cases c) (simp_all add: Cons.IH)
qed

text \<open>
  C1. For every finite sequence of \<open>set\<close> calls on the set, scheduled on its real-time
  Dispatcher and drained by any number of \<open>processRealtimeEvents\<close> calls in between
  and one at the end, the records are applied in the order they were enqueued: the final
  state, with the value of every parameter and every observer callback, is the one reached
  by applying the same \<open>set\<close> calls synchronously in the same order.
\<close>

theorem drain_refines_synchronous:
  assumes "queue (realtimeDispatcher s) = []"
  shows "ConcurrentParameterSet_processRealtimeEvents (run_calls cs s) = apply_synchronously cs s"
proof -
  have "(realtimeDispatcher s)\<lparr>queue := []\<rparr> = realtimeDispatcher s"
    using assms by simp
  moreover have "realtimeDispatcher (apply_synchronously cs s) = realtimeDispatcher s"
    by (rule apply_synchronously_realtimeDispatcher)
  ultimately show ?thesis
    using assms by (simp add: run_calls_then_drain)
qed


theorem drain_refines_synchronous_witness:
  "queue (realtimeDispatcher example_set) = [] \<and>
   ConcurrentParameterSet_processRealtimeEvents
     (run_calls [SetCall 1 3 NULL, ProcessCall, SetCall 1 4 NULL, SetCall 1 5 7] example_set)
     = apply_synchronously [SetCall 1 3 NULL, ProcessCall, SetCall 1 4 NULL, SetCall 1 5 7] example_set \<and>
   map_option current
     (objects (ConcurrentParameterSet_processRealtimeEvents
        (run_calls [SetCall 1 3 NULL, ProcessCall, SetCall 1 4 NULL, SetCall 1 5 7] example_set)) 1)
     = Some (Value 5)"
proof -
  have q: "queue (realtimeDispatcher example_set) = []"
    by (simp add: example_set_def newEventDispatcher_def)
  have v: "map_option current
     (objects (apply_synchronously [SetCall 1 3 NULL, ProcessCall, SetCall 1 4 NULL, SetCall 1 5 7]
        example_set) 1) = Some (Value 5)"
    by (simp add: example_set_def Event_apply_def newEvent_def)
  show ?thesis
    using drain_refines_synchronous [OF q, of "[SetCall 1 3 NULL, ProcessCall, SetCall 1 4 NULL, SetCall 1 5 7]"] q v
    by simp
qed

subsection \<open>The sender is not notified\<close>








subsection \<open>Routing\<close>

lemma enqueued_realtime_queues:
  "queue (realtimeDispatcher (enqueued_realtime e s)) = queue (realtimeDispatcher s) @ [e] \<and>
   asyncDispatcher (enqueued_realtime e s) = asyncDispatcher s"
  by (simp add: enqueued_realtime_def)

lemma enqueued_async_queues:
  "queue (asyncDispatcher (enqueued_async k e s)) = queue (asyncDispatcher s) @ [e] \<and>
   notifyCount (asyncDispatcher (enqueued_async k e s)) = notifyCount (asyncDispatcher s) + k \<and>
   realtimeDispatcher (enqueued_async k e s) = realtimeDispatcher s"
  by (simp add: enqueued_async_def)

lemma scheduleEvent_realtime:
  "isRealtime e \<Longrightarrow> ConcurrentParameterSet_scheduleEvent e s = enqueued_realtime e s"
  by (simp add: ConcurrentParameterSet_scheduleEvent_def EventDispatcher_add_def push_def
      enqueued_realtime_def)

text \<open>
  C3. \<open>scheduleEvent\<close> routes a record by its real-time flag, in
  \<open>ConcurrentParameterSet\<close> and in \<open>PluginParameterSet\<close>: a record whose
  \<open>isRealtime\<close> is true is added at the tail of the real-time dispatcher's queue
  and nothing else changes; every other record is added at the tail of the async
  dispatcher's queue and a wake signal to the waiter follows. In \<open>PluginParameterSet\<close>
  that is the one signal of the async Dispatcher's own enqueue; in
  \<open>ConcurrentParameterSet\<close> the call of \<open>notify()\<close> after \<open>add\<close> sends a
  second one.
\<close>

theorem scheduleEvent_routes_by_flag:
  "ConcurrentParameterSet_scheduleEvent e s
     = (if isRealtime e then enqueued_realtime e s else enqueued_async 2 e s) \<and>
   PluginParameterSet_scheduleEvent e s
     = (if isRealtime e then enqueued_realtime e s else enqueued_async 1 e s) \<and>
   queue (realtimeDispatcher (enqueued_realtime e s)) = queue (realtimeDispatcher s) @ [e] \<and>
   asyncDispatcher (enqueued_realtime e s) = asyncDispatcher s \<and>
   queue (asyncDispatcher (enqueued_async k e s)) = queue (asyncDispatcher s) @ [e] \<and>
   notifyCount (asyncDispatcher (enqueued_async k e s)) = notifyCount (asyncDispatcher s) + k \<and>
   realtimeDispatcher (enqueued_async k e s) = realtimeDispatcher s"
  using enqueued_realtime_queues [of e s] enqueued_async_queues [of k e s]
  by (simp add: ConcurrentParameterSet_scheduleEvent_def PluginParameterSet_scheduleEvent_def
      EventDispatcher_add_def push_def EventDispatcher_notify_def
      enqueued_realtime_def enqueued_async_def)

theorem scheduleEvent_routes_by_flag_witness:
  "queue (realtimeDispatcher
       (ConcurrentParameterSet_scheduleEvent (newEvent 1 3 True NULL) example_set))
     = [newEvent 1 3 True NULL] \<and>
   asyncDispatcher (ConcurrentParameterSet_scheduleEvent (newEvent 1 3 True NULL) example_set)
     = newEventDispatcher \<and>
   asyncDispatcher (ConcurrentParameterSet_scheduleEvent (newEvent 1 3 False NULL) example_set)
     = \<lparr>queue = [newEvent 1 3 False NULL], killed = False, notifyCount = 2\<rparr> \<and>
   realtimeDispatcher (ConcurrentParameterSet_scheduleEvent (newEvent 1 3 False NULL) example_set)
     = newEventDispatcher \<and>
   asyncDispatcher (PluginParameterSet_scheduleEvent (newEvent 1 3 False NULL) example_set)
     = \<lparr>queue = [newEvent 1 3 False NULL], killed = False, notifyCount = 1\<rparr> \<and>
   queue (realtimeDispatcher
       (PluginParameterSet_scheduleEvent (newEvent 1 3 True NULL) example_set))
     = [newEvent 1 3 True NULL]"
  using scheduleEvent_routes_by_flag [of "newEvent 1 3 True NULL" example_set 0]
    scheduleEvent_routes_by_flag [of "newEvent 1 3 False NULL" example_set 0]
  by (simp add: newEvent_def example_set_def newEventDispatcher_def
      enqueued_realtime_def enqueued_async_def)

text \<open>
  C4. Every \<open>set\<close>, \<open>setScaled\<close> and \<open>setData\<close> of
  \<open>ConcurrentParameterSet\<close>, by pointer, by name and by index, builds its record with
  the real-time flag true and \<open>scheduleEvent\<close> puts that record at the tail of the
  real-time queue, leaving the async dispatcher and all else as it was. The calls that
  make no record (a name that is not found, an index out of range, a target that is not a
  data parameter) change nothing.
\<close>

theorem facade_events_realtime:
  "(ConcurrentParameterSet_set p v sndr s = enqueued_realtime (newEvent p v True sndr) s \<and>
    queue (realtimeDispatcher (ConcurrentParameterSet_set p v sndr s))
      = queue (realtimeDispatcher s) @ [newEvent p v True sndr] \<and>
    isRealtime (newEvent p v True sndr) \<and>
    asyncDispatcher (ConcurrentParameterSet_set p v sndr s) = asyncDispatcher s) \<and>
   (ConcurrentParameterSet_setScaled p v sndr s
      = enqueued_realtime (newScaledEvent p v True sndr) s \<and>
    queue (realtimeDispatcher (ConcurrentParameterSet_setScaled p v sndr s))
      = queue (realtimeDispatcher s) @ [newScaledEvent p v True sndr] \<and>
    isRealtime (newScaledEvent p v True sndr) \<and>
    asyncDispatcher (ConcurrentParameterSet_setScaled p v sndr s) = asyncDispatcher s) \<and>
   (ConcurrentParameterSet_setData p d n sndr s
      = (if p = NULL then Inr s
         else (case objects s p of
                 None \<Rightarrow> Inl UndefinedBehaviour
               | Some obj \<Rightarrow>
                   if isDataParameter obj
                   then Inr (enqueued_realtime (newDataEvent p d n True sndr) s)
                   else Inr s)) \<and>
    isRealtime (newDataEvent p d n True sndr)) \<and>
   ConcurrentParameterSet_set_name mk nm v sndr s
     = (if PluginParameterSet_get mk s nm = NULL then s
        else enqueued_realtime (newEvent (PluginParameterSet_get mk s nm) v True sndr) s) \<and>
   ConcurrentParameterSet_setScaled_name mk nm v sndr s
     = (if PluginParameterSet_get mk s nm = NULL then s
        else enqueued_realtime (newScaledEvent (PluginParameterSet_get mk s nm) v True sndr) s) \<and>
   ConcurrentParameterSet_setData_name mk nm d n sndr s
     = (if PluginParameterSet_get mk s nm = NULL then Inr s
        else (case objects s (PluginParameterSet_get mk s nm) of
                None \<Rightarrow> Inl UndefinedBehaviour
              | Some obj \<Rightarrow>
                  if isDataParameter obj
                  then Inr (enqueued_realtime
                              (newDataEvent (PluginParameterSet_get mk s nm) d n True sndr) s)
                  else Inr s)) \<and>
   ConcurrentParameterSet_set_index i v sndr s
     = (if 0 \<le> i \<and> i < int (length (parameterList s))
        then Inr (enqueued_realtime (newEvent (parameterList s ! nat i) v True sndr) s)
        else Inl OutOfRange) \<and>
   ConcurrentParameterSet_setScaled_index i v sndr s
     = (if 0 \<le> i \<and> i < int (length (parameterList s))
        then Inr (enqueued_realtime (newScaledEvent (parameterList s ! nat i) v True sndr) s)
        else Inl OutOfRange) \<and>
   ConcurrentParameterSet_setData_index k d n sndr s
     = (if k < length (parameterList s)
        then (if parameterList s ! k = NULL then Inr s
              else (case objects s (parameterList s ! k) of
                      None \<Rightarrow> Inl UndefinedBehaviour
                    | Some obj \<Rightarrow>
                        if isDataParameter obj
                        then Inr (enqueued_realtime
                                    (newDataEvent (parameterList s ! k) d n True sndr) s)
                        else Inr s))
        else Inl OutOfRange) \<and>
   queue (realtimeDispatcher (enqueued_realtime e s)) = queue (realtimeDispatcher s) @ [e] \<and>
   asyncDispatcher (enqueued_realtime e s) = asyncDispatcher s"
proof -
  have ev: "isRealtime (newEvent p' v True sndr)" "isRealtime (newScaledEvent p' v True sndr)"
    "isRealtime (newDataEvent p' d n True sndr)" for p'
    by (simp_all add: newEvent_def newScaledEvent_def newDataEvent_def)
  have a: "ConcurrentParameterSet_set p' v sndr s = enqueued_realtime (newEvent p' v True sndr) s"
    for p'
    unfolding ConcurrentParameterSet_set_def by (rule scheduleEvent_realtime) (rule ev)
  have b: "ConcurrentParameterSet_setScaled p' v sndr s
             = enqueued_realtime (newScaledEvent p' v True sndr) s" for p'
    unfolding ConcurrentParameterSet_setScaled_def by (rule scheduleEvent_realtime) (rule ev)
  have c: "ConcurrentParameterSet_setData p' d n sndr s
      = (if p' = NULL then Inr s
         else (case objects s p' of
                 None \<Rightarrow> Inl UndefinedBehaviour
               | Some obj \<Rightarrow>
                   if isDataParameter obj
                   then Inr (enqueued_realtime (newDataEvent p' d n True sndr) s)
                   else Inr s))" for p'
    by (simp add: ConcurrentParameterSet_setData_def dynamic_cast_DataParameter_def
        scheduleEvent_realtime ev split: option.splits)
  have 1: "queue (realtimeDispatcher (ConcurrentParameterSet_set p v sndr s))
      = queue (realtimeDispatcher s) @ [newEvent p v True sndr] \<and>
    asyncDispatcher (ConcurrentParameterSet_set p v sndr s) = asyncDispatcher s"
    unfolding a by (rule enqueued_realtime_queues)
  have 2: "queue (realtimeDispatcher (ConcurrentParameterSet_setScaled p v sndr s))
      = queue (realtimeDispatcher s) @ [newScaledEvent p v True sndr] \<and>
    asyncDispatcher (ConcurrentParameterSet_setScaled p v sndr s) = asyncDispatcher s"
    unfolding b by (rule enqueued_realtime_queues)
  have 4: "ConcurrentParameterSet_set_name mk nm v sndr s
     = (if PluginParameterSet_get mk s nm = NULL then s
        else enqueued_realtime (newEvent (PluginParameterSet_get mk s nm) v True sndr) s)"
    by (simp add: ConcurrentParameterSet_set_name_def Let_def a)
  have 5: "ConcurrentParameterSet_setScaled_name mk nm v sndr s
     = (if PluginParameterSet_get mk s nm = NULL then s
        else enqueued_realtime (newScaledEvent (PluginParameterSet_get mk s nm) v True sndr) s)"
    by (simp add: ConcurrentParameterSet_setScaled_name_def Let_def b)
  have 6: "ConcurrentParameterSet_setData_name mk nm d n sndr s
     = (if PluginParameterSet_get mk s nm = NULL then Inr s
        else (case objects s (PluginParameterSet_get mk s nm) of
                None \<Rightarrow> Inl UndefinedBehaviour
              | Some obj \<Rightarrow>
                  if isDataParameter obj
                  then Inr (enqueued_realtime
                              (newDataEvent (PluginParameterSet_get mk s nm) d n True sndr) s)
                  else Inr s))"
    by (simp add: ConcurrentParameterSet_setData_name_def Let_def c)
  have 7: "ConcurrentParameterSet_set_index i v sndr s
     = (if 0 \<le> i \<and> i < int (length (parameterList s))
        then Inr (enqueued_realtime (newEvent (parameterList s ! nat i) v True sndr) s)
        else Inl OutOfRange)"
    by (simp add: ConcurrentParameterSet_set_index_def vector_at_def a)
  have 8: "ConcurrentParameterSet_setScaled_index i v sndr s
     = (if 0 \<le> i \<and> i < int (length (parameterList s))
        then Inr (enqueued_realtime (newScaledEvent (parameterList s ! nat i) v True sndr) s)
        else Inl OutOfRange)"
    by (simp add: ConcurrentParameterSet_setScaled_index_def vector_at_def b)
  have 9: "ConcurrentParameterSet_setData_index k d n sndr s
     = (if k < length (parameterList s)
        then (if parameterList s ! k = NULL then Inr s
              else (case objects s (parameterList s ! k) of
                      None \<Rightarrow> Inl UndefinedBehaviour
                    | Some obj \<Rightarrow>
                        if isDataParameter obj
                        then Inr (enqueued_realtime
                                    (newDataEvent (parameterList s ! k) d n True sndr) s)
                        else Inr s))
        else Inl OutOfRange)"
    by (simp add: ConcurrentParameterSet_setData_index_def vector_at_def c)
  show ?thesis
    using a [of p] b [of p] c [of p] ev [of p] 1 2 4 5 6 7 8 9 enqueued_realtime_queues [of e s]
    by simp
qed

theorem facade_events_realtime_witness:
  "queue (realtimeDispatcher (ConcurrentParameterSet_set 1 3 NULL example_set))
     = [newEvent 1 3 True NULL] \<and>
   asyncDispatcher (ConcurrentParameterSet_set 1 3 NULL example_set) = newEventDispatcher \<and>
   queue (realtimeDispatcher (ConcurrentParameterSet_setScaled 1 3 NULL example_set))
     = [newScaledEvent 1 3 True NULL] \<and>
   ConcurrentParameterSet_setData 2 9 4 NULL example_set
     = Inr (enqueued_realtime (newDataEvent 2 9 4 True NULL) example_set) \<and>
   ConcurrentParameterSet_setData 1 9 4 NULL example_set = Inr example_set \<and>
   ConcurrentParameterSet_set_name (\<lambda>n. n) ''gain'' 3 NULL example_set
     = enqueued_realtime (newEvent 1 3 True NULL) example_set \<and>
   ConcurrentParameterSet_set_name (\<lambda>n. n) ''none'' 3 NULL example_set = example_set \<and>
   ConcurrentParameterSet_setScaled_index 0 3 NULL example_set
     = Inr (enqueued_realtime (newScaledEvent 1 3 True NULL) example_set) \<and>
   ConcurrentParameterSet_set_index 2 3 NULL example_set = Inl OutOfRange \<and>
   ConcurrentParameterSet_setData_index 1 9 4 NULL example_set
     = Inr (enqueued_realtime (newDataEvent 2 9 4 True NULL) example_set) \<and>
   queue (realtimeDispatcher (enqueued_realtime (newDataEvent 2 9 4 True NULL) example_set))
     = [newDataEvent 2 9 4 True NULL]"
proof -
  have o: "objects example_set (Suc 0) = Some gain_parameter"
    "objects example_set 2 = Some blob_parameter"
    "isDataParameter blob_parameter" "\<not> isDataParameter gain_parameter"
    "parameterList example_set = [Suc 0, 2]" "Suc 0 \<noteq> NULL" "(2::nat) \<noteq> NULL"
    "queue (realtimeDispatcher example_set) = []" "asyncDispatcher example_set = newEventDispatcher"
    "PluginParameterSet_get (\<lambda>n. n) example_set ''gain'' = Suc 0"
    "PluginParameterSet_get (\<lambda>n. n) example_set ''none'' = NULL"
    by (simp_all add: example_set_def gain_parameter_def blob_parameter_def NULL_def
        newEventDispatcher_def PluginParameterSet_get_def)
  show ?thesis
    using facade_events_realtime [of 1 3 NULL example_set 9 4 "\<lambda>n. n" "''gain''" 0 1
            "newDataEvent 2 9 4 True NULL"]
      facade_events_realtime [of 2 3 NULL example_set 9 4 "\<lambda>n. n" "''none''" 2 1
            "newDataEvent 2 9 4 True NULL"]
    by (simp add: o enqueued_realtime_queues)
qed

subsection \<open>Data for a parameter that takes none\<close>

text \<open>
  C7. A \<open>setData\<close> whose target is not a data parameter (the pointer is null, or the
  object it points to is not a \<open>DataParameter\<close>, so that the cast gives null) returns
  normally and leaves everything as it was: both queues, every parameter's value and the
  observer callbacks made. So do the calls by index and by name that resolve to such a
  target.
\<close>

theorem setData_not_data_parameter:
  assumes "p = NULL \<or> (\<exists>obj. objects s p = Some obj \<and> \<not> isDataParameter obj)"
  shows "ConcurrentParameterSet_setData p d n sndr s = Inr s \<and>
         (vector_at (parameterList s) (int i) = Inr p \<longrightarrow>
            ConcurrentParameterSet_setData_index i d n sndr s = Inr s) \<and>
         (PluginParameterSet_get mk s nm = p \<longrightarrow>
            ConcurrentParameterSet_setData_name mk nm d n sndr s = Inr s)"
proof -
  have "dynamic_cast_DataParameter s p = Inr NULL"
    using assms by (auto simp: dynamic_cast_DataParameter_def)
  then have 1: "ConcurrentParameterSet_setData p d n sndr s = Inr s"
    by (simp add: ConcurrentParameterSet_setData_def)
  then show ?thesis
    by (auto simp: ConcurrentParameterSet_setData_index_def
        ConcurrentParameterSet_setData_name_def Let_def)
qed


theorem setData_not_data_parameter_witness:
  "(\<exists>obj. objects example_set 1 = Some obj \<and> \<not> isDataParameter obj) \<and>
   ConcurrentParameterSet_setData 1 9 4 NULL example_set = Inr example_set \<and>
   ConcurrentParameterSet_setData_index 0 9 4 NULL example_set = Inr example_set \<and>
   ConcurrentParameterSet_setData_name (\<lambda>n. n) ''gain'' 9 4 NULL example_set = Inr example_set"
proof -
  have a: "\<exists>obj. objects example_set 1 = Some obj \<and> \<not> isDataParameter obj"
    by (simp add: example_set_def gain_parameter_def)
  then have b: "1 = NULL \<or> (\<exists>obj. objects example_set 1 = Some obj \<and> \<not> isDataParameter obj)"
    by simp
  have i: "vector_at (parameterList example_set) (int 0) = Inr 1"
    by (simp add: vector_at_def example_set_def)
  have g: "PluginParameterSet_get (\<lambda>n. n) example_set ''gain'' = 1"
    by (simp add: PluginParameterSet_get_def example_set_def)
  show ?thesis
    using setData_not_data_parameter [OF b, of 9 4 NULL 0 "\<lambda>n. n" "''gain''"] a i g
    by simp
qed

section \<open>PluginParameterSet: properties\<close>

lemma size_in_range:
  assumes "length (parameterList s) < 2 ^ 31"
  shows "PluginParameterSet_size s = int (length (parameterList s))"
proof -
  have "sint (word_of_nat (length (parameterList s)) :: 32 word)
          = signed_take_bit 31 (int (length (parameterList s)))"
    by (simp add: signed_of_nat)
  also have "\<dots> = int (length (parameterList s))"
    using assms by (intro signed_take_bit_int_eq_self) simp_all
  finally show ?thesis by (simp add: PluginParameterSet_size_def)
qed

lemma PluginParameterSet_add_null:
  "PluginParameterSet_add mk NULL s = Inr (NULL, s)"
  by (simp add: PluginParameterSet_add_def)

lemma PluginParameterSet_add_present:
  assumes "\<And>k. parameterMap s k \<noteq> Some NULL"
    and "objects s p = Some obj" and "safeName obj = mk (name obj)"
    and "parameterMap s (safeName obj) \<noteq> None"
  shows "PluginParameterSet_add mk p s = Inr (NULL, s)"
proof -
  obtain q where q: "parameterMap s (mk (name obj)) = Some q"
    using assms(3,4) by auto
  then have "q \<noteq> NULL" using assms(1) by metis
  then show ?thesis
    using q assms(2) by (simp add: PluginParameterSet_add_def PluginParameterSet_get_def)
qed

lemma PluginParameterSet_add_absent:
  assumes "p \<noteq> NULL"
    and "objects s p = Some obj" and "safeName obj = mk (name obj)"
    and "parameterMap s (safeName obj) = None"
  shows "PluginParameterSet_add mk p s
           = Inr (p, s\<lparr>parameterMap := (parameterMap s)(safeName obj \<mapsto> p),
                      parameterList := parameterList s @ [p]\<rparr>)"
  using assms
  by (simp add: PluginParameterSet_add_def PluginParameterSet_get_def map_insert_def)

text \<open>
  C9. \<open>add(p)\<close> on a set whose map holds no null pointer, for \<open>p\<close> null or the
  address of a parameter whose safe name is \<open>makeSafeName\<close> of its name: when
  \<open>p\<close> is null or the map has an entry under the parameter's safe name, \<open>add\<close>
  returns null and the set is unchanged; otherwise it returns \<open>p\<close>, the map has
  \<open>p\<close> under the safe name, the list has \<open>p\<close> at its end and is longer by one,
  and \<open>size()\<close> is larger by one as long as the new length fits its \<open>int\<close>.
\<close>

theorem PluginParameterSet_add_result:
  assumes inv: "\<And>k. parameterMap s k \<noteq> Some NULL"
    and obj: "p \<noteq> NULL \<Longrightarrow> objects s p = Some obj \<and> safeName obj = mk (name obj)"
  shows "(p = NULL \<or> parameterMap s (safeName obj) \<noteq> None \<longrightarrow>
            PluginParameterSet_add mk p s = Inr (NULL, s)) \<and>
         (p \<noteq> NULL \<and> parameterMap s (safeName obj) = None \<longrightarrow>
            (\<exists>s'. PluginParameterSet_add mk p s = Inr (p, s') \<and>
                  s' = s\<lparr>parameterMap := (parameterMap s)(safeName obj \<mapsto> p),
                         parameterList := parameterList s @ [p]\<rparr> \<and>
                  PluginParameterSet_get mk s' (name obj) = p \<and>
                  length (parameterList s') = Suc (length (parameterList s)) \<and>
                  (length (parameterList s) < 2 ^ 31 - 1 \<longrightarrow>
                     PluginParameterSet_size s' = PluginParameterSet_size s + 1)))"
proof (intro conjI impI)
  assume "p = NULL \<or> parameterMap s (safeName obj) \<noteq> None"
  then show "PluginParameterSet_add mk p s = Inr (NULL, s)"
  proof (cases "p = NULL")
    case True
    then show ?thesis by (simp add: PluginParameterSet_add_null)
  next
    case False
    assume "p = NULL \<or> parameterMap s (safeName obj) \<noteq> None"
    with False have "parameterMap s (safeName obj) \<noteq> None" by simp
    with obj [OF False] inv show ?thesis
      by (intro PluginParameterSet_add_present) auto
  qed
next
  assume a: "p \<noteq> NULL \<and> parameterMap s (safeName obj) = None"
  let ?s' = "s\<lparr>parameterMap := (parameterMap s)(safeName obj \<mapsto> p),
                parameterList := parameterList s @ [p]\<rparr>"
  have 1: "PluginParameterSet_add mk p s = Inr (p, ?s')"
    using a obj by (intro PluginParameterSet_add_absent) auto
  have 2: "PluginParameterSet_get mk ?s' (name obj) = p"
    using a obj by (simp add: PluginParameterSet_get_def)
  have 3: "PluginParameterSet_size ?s' = PluginParameterSet_size s + 1"
    if "length (parameterList s) < 2 ^ 31 - 1"
  proof -
    have "PluginParameterSet_size ?s' = int (length (parameterList ?s'))"
      using that by (intro size_in_range) simp
    moreover have "PluginParameterSet_size s = int (length (parameterList s))"
      using that by (intro size_in_range) simp
    ultimately show ?thesis by simp
  qed
  show "\<exists>s'. PluginParameterSet_add mk p s = Inr (p, s') \<and>
                  s' = s\<lparr>parameterMap := (parameterMap s)(safeName obj \<mapsto> p),
                         parameterList := parameterList s @ [p]\<rparr> \<and>
                  PluginParameterSet_get mk s' (name obj) = p \<and>
                  length (parameterList s') = Suc (length (parameterList s)) \<and>
                  (length (parameterList s) < 2 ^ 31 - 1 \<longrightarrow>
                     PluginParameterSet_size s' = PluginParameterSet_size s + 1)"
    using 1 2 3 by simp
qed

theorem PluginParameterSet_add_result_witness:
  "PluginParameterSet_add (\<lambda>n. n) NULL example_set = Inr (NULL, example_set) \<and>
   PluginParameterSet_add (\<lambda>n. n) 1 example_set = Inr (NULL, example_set) \<and>
   (\<exists>s'. PluginParameterSet_add (\<lambda>n. n) 1 (newParameterSet [1 \<mapsto> gain_parameter]) = Inr (1, s') \<and>
         parameterList s' = [1] \<and> PluginParameterSet_size s' = 1)"
proof -
  have inv: "\<And>k. parameterMap example_set k \<noteq> Some NULL"
    by (simp add: example_set_def NULL_def)
  have inv0: "\<And>k. parameterMap (newParameterSet [1 \<mapsto> gain_parameter]) k \<noteq> Some NULL"
    by (simp add: newParameterSet_def)
  have o1: "1 \<noteq> NULL \<Longrightarrow> objects example_set 1 = Some gain_parameter \<and>
              safeName gain_parameter = (\<lambda>n. n) (name gain_parameter)"
    by (simp add: example_set_def gain_parameter_def)
  have o0: "1 \<noteq> NULL \<Longrightarrow> objects (newParameterSet [1 \<mapsto> gain_parameter]) 1 = Some gain_parameter \<and>
              safeName gain_parameter = (\<lambda>n. n) (name gain_parameter)"
    by (simp add: newParameterSet_def gain_parameter_def)
  have on: "NULL \<noteq> NULL \<Longrightarrow> objects example_set NULL = Some gain_parameter \<and>
              safeName gain_parameter = (\<lambda>n. n) (name gain_parameter)"
    by simp
  have z: "PluginParameterSet_size (newParameterSet [1 \<mapsto> gain_parameter]) = 0"
    by (simp add: PluginParameterSet_size_def newParameterSet_def)
  show ?thesis
    using PluginParameterSet_add_result [of example_set NULL gain_parameter "\<lambda>n. n", OF inv on]
      PluginParameterSet_add_result [of example_set 1 gain_parameter "\<lambda>n. n", OF inv o1]
      PluginParameterSet_add_result [of "newParameterSet [1 \<mapsto> gain_parameter]" 1 gain_parameter "\<lambda>n. n", OF inv0 o0]
      z
    by (simp add: example_set_def gain_parameter_def newParameterSet_def NULL_def)
qed

lemma PluginParameterSet_add_keeps_invariant:
  assumes "\<And>k. parameterMap s k \<noteq> Some NULL"
    and "PluginParameterSet_add mk p s = Inr (r, s')"
  shows "parameterMap s' k \<noteq> Some NULL"
  using assms
  by (auto simp: PluginParameterSet_add_def map_insert_def
      split: if_splits option.splits)



section \<open>The worker and the destructors: properties\<close>

subsection \<open>The worker of ConcurrentParameterSet\<close>

lemma Concurrent_worker_killed:
  "EventDispatcher_isKilled (asyncDispatcher s) \<Longrightarrow>
     ConcurrentParameterSet_asyncDispatcherCallback env s = (Returned, [IsKilled True], s)"
  by (cases env) simp_all

lemma Concurrent_worker_trace_Nil:
  "fst (snd (ConcurrentParameterSet_asyncDispatcherCallback [] s))
     = (if EventDispatcher_isKilled (asyncDispatcher s) then [IsKilled True]
        else [IsKilled False, Wait])"
  by simp

lemma Concurrent_worker_trace_Cons:
  "fst (snd (ConcurrentParameterSet_asyncDispatcherCallback (calls # env) s))
     = (if EventDispatcher_isKilled (asyncDispatcher s) then [IsKilled True]
        else if \<not> EventDispatcher_isKilled (asyncDispatcher (wait_async calls s))
        then [IsKilled False, Wait, IsKilled False, Process (killed (asyncDispatcher (wait_async calls s)))]
             @ fst (snd (ConcurrentParameterSet_asyncDispatcherCallback env
                           (process_async (wait_async calls s))))
        else [IsKilled False, Wait, IsKilled True]
             @ fst (snd (ConcurrentParameterSet_asyncDispatcherCallback env (wait_async calls s))))"
  by (simp add: Let_def split: prod.splits)

lemma Concurrent_worker_end_Cons:
  "fst (ConcurrentParameterSet_asyncDispatcherCallback (calls # env) s)
     = (if EventDispatcher_isKilled (asyncDispatcher s) then Returned
        else if \<not> EventDispatcher_isKilled (asyncDispatcher (wait_async calls s))
        then fst (ConcurrentParameterSet_asyncDispatcherCallback env
                           (process_async (wait_async calls s)))
        else fst (ConcurrentParameterSet_asyncDispatcherCallback env (wait_async calls s)))"
  by (simp add: Let_def split: prod.splits)

text \<open>
  Whatever the other threads do while the worker of \<open>ConcurrentParameterSet\<close> waits:
  it reads the kill flag after every wake and before \<open>process()\<close>, it never enters
  \<open>process()\<close> on a killed dispatcher, and once it has read the flag as true it
  does not call \<open>process()\<close> again.
\<close>

lemma Concurrent_worker_kill_checked:
  "kill_checked (fst (snd (ConcurrentParameterSet_asyncDispatcherCallback env s)))"
proof (induction env arbitrary: s)
  case Nil
  show ?case unfolding Concurrent_worker_trace_Nil by simp
next
  case (Cons calls env)
  show ?case unfolding Concurrent_worker_trace_Cons by (simp add: Cons.IH)
qed

lemma Concurrent_worker_never_processes_killed:
  "Process True \<notin> set (fst (snd (ConcurrentParameterSet_asyncDispatcherCallback env s)))"
proof (induction env arbitrary: s)
  case Nil
  show ?case unfolding Concurrent_worker_trace_Nil by simp
next
  case (Cons calls env)
  show ?case unfolding Concurrent_worker_trace_Cons
    by (simp add: Cons.IH EventDispatcher_isKilled_def)
qed

lemma Concurrent_worker_no_process_after_kill:
  "no_process_after_kill (fst (snd (ConcurrentParameterSet_asyncDispatcherCallback env s)))"
proof (induction env arbitrary: s)
  case Nil
  show ?case unfolding Concurrent_worker_trace_Nil by simp
next
  case (Cons calls env)
  show ?case unfolding Concurrent_worker_trace_Cons
    by (simp add: Cons.IH Concurrent_worker_killed)
qed


text \<open>
  After \<open>kill()\<close> the worker of \<open>ConcurrentParameterSet\<close> returns, so the
  destructor's \<open>join()\<close> does. The worker of \<open>PluginParameterSet\<close> stays
  blocked in \<open>wait()\<close> for ever when nobody kills its dispatcher.
\<close>

lemma Concurrent_join_returns:
  "fst (ConcurrentParameterSet_join env s) = Returned"
  unfolding ConcurrentParameterSet_join_def
proof (induction env arbitrary: s)
  case Nil
  have "EventDispatcher_isKilled (asyncDispatcher (wait_async [KillCall] s))"
    by (simp add: wait_async_def EventDispatcher_wait_def EventDispatcher_kill_def
        EventDispatcher_isKilled_def)
  then show ?case
    unfolding append_Nil Concurrent_worker_end_Cons by (simp add: Concurrent_worker_killed)
next
  case (Cons calls env)
  show ?case
    unfolding append_Cons Concurrent_worker_end_Cons by (simp add: Cons.IH)
qed

lemma Plugin_worker_end_Cons:
  "fst (PluginParameterSet_asyncDispatcherCallback (calls # env) s)
     = (if EventDispatcher_isKilled (asyncDispatcher s) then Returned
        else fst (PluginParameterSet_asyncDispatcherCallback env
                           (process_async (wait_async calls s))))"
  by (simp add: Let_def split: prod.splits)

lemma perform_keeps_killed:
  "c \<noteq> KillCall \<Longrightarrow> killed (perform c d) = killed d"
  by (cases c) (simp_all add: EventDispatcher_add_def push_def EventDispatcher_notify_def)

lemma wait_keeps_killed:
  "KillCall \<notin> set calls \<Longrightarrow> killed (EventDispatcher_wait calls d) = killed d"
  unfolding EventDispatcher_wait_def
proof (induction calls arbitrary: d)
  case Nil
  show ?case by simp
next
  case (Cons c calls)
  then have "c \<noteq> KillCall" and "KillCall \<notin> set calls" by auto
  then show ?case using Cons.IH [of "perform c d"] by (simp add: perform_keeps_killed)
qed

lemma process_async_killed:
  "killed (asyncDispatcher (process_async s)) = killed (asyncDispatcher s)"
  by (simp add: process_async_def EventDispatcher_process_def popAll_def)

lemma Plugin_join_blocks:
  assumes "\<not> killed (asyncDispatcher s)" and "\<forall>calls \<in> set env. KillCall \<notin> set calls"
  shows "fst (PluginParameterSet_join env s) = Blocked"
  using assms unfolding PluginParameterSet_join_def
proof (induction env arbitrary: s)
  case Nil
  then show ?case by (simp add: EventDispatcher_isKilled_def)
next
  case (Cons calls env)
  have "\<not> killed (asyncDispatcher (process_async (wait_async calls s)))"
    using Cons.prems by (simp add: process_async_killed wait_async_def wait_keeps_killed)
  then have "fst (PluginParameterSet_asyncDispatcherCallback env
               (process_async (wait_async calls s))) = Blocked"
    using Cons.prems by (intro Cons.IH) simp_all
  then show ?case
    unfolding Plugin_worker_end_Cons using Cons.prems by (simp add: EventDispatcher_isKilled_def)
qed

subsection \<open>The destructors\<close>

lemma Concurrent_destructor_order:
  "kill_join_first (ConcurrentParameterSet_destructor s)"
  by (simp add: ConcurrentParameterSet_destructor_def is_teardown_def)

text \<open>
  C5. On destruction of a set, \<open>kill()\<close> is called on the async dispatcher and the
  worker is joined, in that order, before anything the set owns is torn down.
  \<open>~ConcurrentParameterSet\<close> does so (the lemma above). \<open>~PluginParameterSet\<close>
  does not: destroying a newly constructed set joins the worker without a
  \<open>kill()\<close>, and that \<open>join()\<close> waits for a worker that is blocked in
  \<open>wait()\<close>.
\<close>

theorem PluginParameterSet_destructor_no_kill:
  "PluginParameterSet_destructor (newParameterSet Map.empty)
     = [JoinWorker, DestroyThread, DestroyRealtimeDispatcher, DestroyAsyncDispatcher,
        DestroyParameterList, DestroyParameterMap, DestroyEventScheduler] \<and>
   \<not> kill_join_first (PluginParameterSet_destructor (newParameterSet Map.empty)) \<and>
   fst (PluginParameterSet_join [] (newParameterSet Map.empty)) = Blocked \<and>
   kill_join_first (ConcurrentParameterSet_destructor (newParameterSet Map.empty)) \<and>
   fst (ConcurrentParameterSet_join [] (newParameterSet Map.empty)) = Returned"
  by (simp add: PluginParameterSet_destructor_def ConcurrentParameterSet_destructor_def
      PluginParameterSet_join_def ConcurrentParameterSet_join_def
      newParameterSet_def newEventDispatcher_def is_teardown_def PluginParameterSet_size_def
      EventDispatcher_isKilled_def wait_async_def EventDispatcher_wait_def EventDispatcher_kill_def)

text \<open>
  C6. In the worker loop the kill flag is checked after every wake from \<open>wait()\<close> and
  before \<open>process()\<close>. The loop of ConcurrentParameterSet.h does so (the lemmas
  above). The loop of PluginParameterSet.h does not: woken by a record that a producer has
  added, it calls \<open>process()\<close> straight after \<open>wait()\<close> and reads the kill
  flag only at the top of the next round, where the loop of ConcurrentParameterSet.h,
  woken the same way, reads the flag between the two.
\<close>

theorem PluginParameterSet_worker_skips_check:
  "fst (snd (PluginParameterSet_asyncDispatcherCallback
       [[AddCall (newEvent 1 5 False 7)]] example_set))
     = [IsKilled False, Wait, Process False, IsKilled False, Wait] \<and>
   \<not> kill_checked
       (fst (snd (PluginParameterSet_asyncDispatcherCallback
          [[AddCall (newEvent 1 5 False 7)]] example_set))) \<and>
   fst (snd (ConcurrentParameterSet_asyncDispatcherCallback
       [[AddCall (newEvent 1 5 False 7)]] example_set))
     = [IsKilled False, Wait, IsKilled False, Process False, IsKilled False, Wait] \<and>
   kill_checked
       (fst (snd (ConcurrentParameterSet_asyncDispatcherCallback
          [[AddCall (newEvent 1 5 False 7)]] example_set)))"
  by (simp add: newEventDispatcher_def example_set_def gain_parameter_def
      EventDispatcher_isKilled_def wait_async_def EventDispatcher_wait_def
      EventDispatcher_add_def push_def EventDispatcher_notify_def
      process_async_def EventDispatcher_process_def popAll_def
      Event_apply_def newEvent_def NULL_def)

end
